theory Spec2Isabelle
  imports Main
begin

section \<open>Python values\<close>

text \<open>
  The values that travel through \<^verbatim>\<open>brewtils/decorators.py\<close> as defaults, choices
  specifications and display definitions: \<^verbatim>\<open>None\<close>, booleans, unbounded integers,
  strings, lists and dictionaries with string keys. A dictionary is an association list
  in insertion order whose keys are distinct, as a Python \<^verbatim>\<open>dict\<close> keeps them.
\<close>

datatype pyval =
    PNone
  | PBool bool
  | PInt int
  | PStr string
  | PList "pyval list"
  | PDict "(string \<times> pyval) list"

text \<open>Python truthiness (\<^verbatim>\<open>bool(v)\<close>, as used by \<^verbatim>\<open>if v\<close>, \<^verbatim>\<open>not v\<close>
  and \<^verbatim>\<open>a or b\<close>).\<close>

fun truthy :: "pyval \<Rightarrow> bool" where
  "truthy PNone = False"
| "truthy (PBool b) = b"
| "truthy (PInt i) = (i \<noteq> 0)"
| "truthy (PStr s) = (s \<noteq> [])"
| "truthy (PList xs) = (xs \<noteq> [])"
| "truthy (PDict kvs) = (kvs \<noteq> [])"

text \<open>\<^verbatim>\<open>d.get(k)\<close> and \<^verbatim>\<open>d.get(k, dflt)\<close> on a dictionary.\<close>

definition dict_get :: "(string \<times> pyval) list \<Rightarrow> string \<Rightarrow> pyval" where
  "dict_get d k = (case map_of d k of None \<Rightarrow> PNone | Some v \<Rightarrow> v)"

definition dict_get_default :: "(string \<times> pyval) list \<Rightarrow> string \<Rightarrow> pyval \<Rightarrow> pyval" where
  "dict_get_default d k dflt = (case map_of d k of None \<Rightarrow> dflt | Some v \<Rightarrow> v)"

text \<open>\<^verbatim>\<open>d[k] = v\<close>: an existing key keeps its place, a new key goes last.\<close>

fun dict_set :: "(string \<times> pyval) list \<Rightarrow> string \<Rightarrow> pyval \<Rightarrow> (string \<times> pyval) list" where
  "dict_set [] k v = [(k, v)]"
| "dict_set ((k', v') # d) k v = (if k' = k then (k, v) # d else (k', v') # dict_set d k v)"

subsection \<open>Strings\<close>

text \<open>
  \<^verbatim>\<open>str.startswith\<close>, \<^verbatim>\<open>str.lower\<close> and \<^verbatim>\<open>str.title\<close> on ASCII text
  (a character outside \<^verbatim>\<open>A-Z\<close> and \<^verbatim>\<open>a-z\<close> is uncased and left as it is).
\<close>

fun startswith :: "string \<Rightarrow> string \<Rightarrow> bool" where
  "startswith s [] = True"
| "startswith [] (p # ps) = False"
| "startswith (c # cs) (p # ps) = (c = p \<and> startswith cs ps)"

definition upper_letters :: string where
  "upper_letters = ''ABCDEFGHIJKLMNOPQRSTUVWXYZ''"

definition lower_letters :: string where
  "lower_letters = ''abcdefghijklmnopqrstuvwxyz''"

definition lower_char :: "char \<Rightarrow> char" where
  "lower_char c = (case map_of (zip upper_letters lower_letters) c of None \<Rightarrow> c | Some d \<Rightarrow> d)"

definition upper_char :: "char \<Rightarrow> char" where
  "upper_char c = (case map_of (zip lower_letters upper_letters) c of None \<Rightarrow> c | Some d \<Rightarrow> d)"

definition is_cased :: "char \<Rightarrow> bool" where
  "is_cased c = (c \<in> set upper_letters \<or> c \<in> set lower_letters)"

definition lower :: "string \<Rightarrow> string" where
  "lower s = map lower_char s"

text \<open>\<^verbatim>\<open>str.title\<close>: a character that follows a cased character is lowercased, any
  other character is uppercased.\<close>

fun title_from :: "bool \<Rightarrow> string \<Rightarrow> string" where
  "title_from prev [] = []"
| "title_from prev (c # cs) =
     (if prev then lower_char c else upper_char c) # title_from (is_cased c) cs"

definition title :: "string \<Rightarrow> string" where
  "title s = title_from False s"

section \<open>Errors\<close>

text \<open>
  Every \<^verbatim>\<open>raise PluginParamError(...)\<close> of the source is one constructor of
  \<open>plugin_param_error\<close>, named after its message. The built-in exceptions that the
  source lets escape (\<^verbatim>\<open>len\<close> of an unsized value, a missing dictionary key) and
  the \<^verbatim>\<open>ParseError\<close> of the choices grammar are errors of their own.
\<close>

datatype plugin_param_error =
    NoKey
  | NoChoicesValue
  | InvalidChoicesType
  | InvalidChoicesValueType
  | InvalidChoicesDisplay
  | InvalidChoices
  | StaticNeedsKeyReference
  | UnableToParse
  | UnableToGenerate
  | NotFoundInSignature
  | NoVarKeyword
  | KwargFoundInSignature
  | PositionalOnlyUnsupported
  | NotADefinition
  | ErrorReadingDefinition

datatype error =
    PluginParamError plugin_param_error
  | TypeError
  | KeyError
  | ParseError
  | OtherError

section \<open>Choices\<close>

text \<open>
  Modelled from the spec: the class \<^verbatim>\<open>Choices\<close> of \<^verbatim>\<open>brewtils.models\<close>, which is
  not among the sources. It is a plain object of five fields (\<^verbatim>\<open>type\<close>,
  \<^verbatim>\<open>display\<close>, \<^verbatim>\<open>value\<close>, \<^verbatim>\<open>strict\<close>, \<^verbatim>\<open>details\<close>): it is truthy, it
  is no dictionary and no string, and it cannot be iterated. Its constants
  \<^verbatim>\<open>TYPES\<close> and \<^verbatim>\<open>DISPLAYS\<close> are the enumerations the spec gives.
\<close>

record Choices =
  choices_type :: pyval
  display :: pyval
  choices_value :: pyval
  strict :: pyval
  details :: pyval

definition Choices_TYPES :: "string list" where
  "Choices_TYPES = [''static'', ''url'', ''command'', ''reference'']"

definition Choices_DISPLAYS :: "string list" where
  "Choices_DISPLAYS = [''select'', ''typeahead'']"

text \<open>The \<^verbatim>\<open>choices\<close> attribute of a Parameter holds what the author wrote (a
  Python value) before normalization and \<^verbatim>\<open>None\<close> or a \<^verbatim>\<open>Choices\<close> object after.\<close>

datatype choices_field = Raw pyval | Resolved Choices

text \<open>
  \<^verbatim>\<open>brewtils.choices.parse\<close> is not among the sources: the grammar is a parameter of
  the model. It returns the parsed descriptor or raises; \<^verbatim>\<open>Inl ParseError\<close> is the
  exception that \<^verbatim>\<open>_format_choices\<close> catches.
\<close>

datatype parse_as = Func | Url | Reference

type_synonym parser = "pyval \<Rightarrow> parse_as \<Rightarrow> error + pyval"

text \<open>The two local helpers of \<^verbatim>\<open>_format_choices\<close>. \<^verbatim>\<open>len\<close> raises
  \<^verbatim>\<open>TypeError\<close> on a value without a length.\<close>

fun determine_display :: "pyval \<Rightarrow> error + string" where
  "determine_display (PStr s) = Inr ''typeahead''"
| "determine_display (PList xs) = Inr (if length xs \<le> 50 then ''select'' else ''typeahead'')"
| "determine_display (PDict kvs) = Inr (if length kvs \<le> 50 then ''select'' else ''typeahead'')"
| "determine_display v = Inl TypeError"

fun determine_type :: "pyval \<Rightarrow> string" where
  "determine_type (PStr s) = (if startswith s ''http'' then ''url'' else ''command'')"
| "determine_type v = ''static''"

fun is_str :: "pyval \<Rightarrow> bool" where
  "is_str (PStr s) = True"
| "is_str v = False"

fun is_dict :: "pyval \<Rightarrow> bool" where
  "is_dict (PDict d) = True"
| "is_dict v = False"

fun is_list :: "pyval \<Rightarrow> bool" where
  "is_list (PList xs) = True"
| "is_list v = False"

text \<open>The mapping branch of \<^verbatim>\<open>_format_choices\<close>, in two steps: the choice type
  (inferred, or declared and cross-checked against the shape of the value), then
  \<^verbatim>\<open>(value, display, choice_type, strict)\<close> once the display is checked too.
  \<^verbatim>\<open>determine_display(value)\<close> is the default argument of \<^verbatim>\<open>choices.get\<close>, so it is
  evaluated, and may raise, whether the mapping has a display or not.\<close>

definition dict_choice_type :: "pyval \<Rightarrow> pyval \<Rightarrow> error + pyval" where
  "dict_choice_type choice_type v =
     (if choice_type = PNone then Inr (PStr (determine_type v))
      else if choice_type \<notin> PStr ` set Choices_TYPES
        then Inl (PluginParamError InvalidChoicesType)
      else if (choice_type = PStr ''command'' \<and> \<not> (is_str v \<or> is_dict v))
            \<or> (choice_type = PStr ''url'' \<and> \<not> is_str v)
            \<or> (choice_type = PStr ''static'' \<and> \<not> (is_list v \<or> is_dict v))
        then Inl (PluginParamError InvalidChoicesValueType)
      else Inr choice_type)"

definition choices_of_dict ::
  "(string \<times> pyval) list \<Rightarrow> error + (pyval \<times> pyval \<times> pyval \<times> pyval)" where
  "choices_of_dict d =
     (if \<not> truthy (dict_get d ''value'') then Inl (PluginParamError NoChoicesValue)
      else
        let v = dict_get d ''value'' in
        (case determine_display v of
          Inl e \<Rightarrow> Inl e
        | Inr dflt \<Rightarrow>
            let disp = dict_get_default d ''display'' (PStr dflt);
                strict_v = dict_get_default d ''strict'' (PBool True)
            in
            (case dict_choice_type (dict_get d ''type'') v of
               Inl e' \<Rightarrow> Inl e'
             | Inr choice_type \<Rightarrow>
                 if disp \<notin> PStr ` set Choices_DISPLAYS
                 then Inl (PluginParamError InvalidChoicesDisplay)
                 else Inr (v, disp, choice_type, strict_v))))"

text \<open>The string branch and the branch of any other value (\<^verbatim>\<open>list(choices)\<close>, which
  raises \<^verbatim>\<open>TypeError\<close> on a value that cannot be iterated).\<close>

fun choices_of_value :: "pyval \<Rightarrow> error + (pyval \<times> pyval \<times> pyval \<times> pyval)" where
  "choices_of_value (PDict d) = choices_of_dict d"
| "choices_of_value (PStr s) =
     Inr (PStr s, PStr ''typeahead'', PStr (determine_type (PStr s)), PBool True)"
| "choices_of_value (PList xs) =
     (case determine_display (PList xs) of
        Inl e \<Rightarrow> Inl e
      | Inr disp \<Rightarrow> Inr (PList xs, PStr disp, PStr (determine_type (PList xs)), PBool True))"
| "choices_of_value v = Inl (PluginParamError InvalidChoices)"

text \<open>The second half: the details, parsed by the grammar that fits the choice type.
  \<^verbatim>\<open>value["command"]\<close> raises \<^verbatim>\<open>KeyError\<close> when the mapping has no such key and
  \<^verbatim>\<open>TypeError\<close> when the value is no mapping; only \<^verbatim>\<open>ParseError\<close> is caught.
  The argument \<open>spec\<close> is the specification itself, read for \<^verbatim>\<open>key_reference\<close>.\<close>

definition caught :: "error + pyval \<Rightarrow> error + pyval" where
  "caught r = (case r of Inl ParseError \<Rightarrow> Inl (PluginParamError UnableToParse) | _ \<Rightarrow> r)"

definition choices_details :: "parser \<Rightarrow> pyval \<Rightarrow> pyval \<Rightarrow> pyval \<Rightarrow> error + pyval" where
  "choices_details parse spec choice_type v =
     (if choice_type = PStr ''command'' then
        (case v of
           PStr s \<Rightarrow> caught (parse v Func)
         | PDict d \<Rightarrow>
             (case map_of d ''command'' of
                None \<Rightarrow> Inl KeyError
              | Some unparsed \<Rightarrow> caught (parse unparsed Func))
         | _ \<Rightarrow> Inl TypeError)
      else if choice_type = PStr ''url'' then caught (parse v Url)
      else if is_dict v then
        (case spec of
           PDict d \<Rightarrow>
             (if dict_get d ''key_reference'' = PNone
              then Inl (PluginParamError StaticNeedsKeyReference)
              else case caught (parse (dict_get d ''key_reference'') Reference) of
                     Inl e \<Rightarrow> Inl e
                   | Inr r \<Rightarrow> Inr (PDict [(''key_reference'', r)]))
         | _ \<Rightarrow> Inl OtherError)
      else Inr (PDict []))"

text \<open>\<^verbatim>\<open>_format_choices\<close>. A falsy specification gives \<^verbatim>\<open>None\<close>; a \<^verbatim>\<open>Choices\<close>
  object is truthy, no dictionary and no string, and \<^verbatim>\<open>list\<close> of it raises the
  \<^verbatim>\<open>TypeError\<close> that the source turns into a \<^verbatim>\<open>PluginParamError\<close>.\<close>

fun format_choices :: "parser \<Rightarrow> choices_field \<Rightarrow> error + choices_field" where
  "format_choices parse (Resolved c) = Inl (PluginParamError InvalidChoices)"
| "format_choices parse (Raw spec) =
     (if \<not> truthy spec then Inr (Raw PNone)
      else case choices_of_value spec of
        Inl e \<Rightarrow> Inl e
      | Inr (v, disp, choice_type, strict_v) \<Rightarrow>
          (case choices_details parse spec choice_type v of
             Inl e \<Rightarrow> Inl e
           | Inr det \<Rightarrow>
               Inr (Resolved \<lparr>choices_type = choice_type, display = disp,
                     choices_value = v, strict = strict_v, details = det\<rparr>)))"

section \<open>Types\<close>

text \<open>
  The \<^verbatim>\<open>type\<close> of a Parameter as the author gives it: nothing, a Python class
  (\<^verbatim>\<open>str\<close>, \<^verbatim>\<open>int\<close>, \<^verbatim>\<open>float\<close>, \<^verbatim>\<open>bool\<close>, \<^verbatim>\<open>dict\<close> or another class, known
  by its name) or a string. \<^verbatim>\<open>str(cls)\<close> of a class is \<^verbatim>\<open><class 'name'>\<close>.
\<close>

datatype pyclass = Cstr | Cint | Cfloat | Cbool | Cdict | Cother string

datatype type_field = TNone | TClass pyclass | TStr string

fun class_name :: "pyclass \<Rightarrow> string" where
  "class_name Cstr = ''str''"
| "class_name Cint = ''int''"
| "class_name Cfloat = ''float''"
| "class_name Cbool = ''bool''"
| "class_name Cdict = ''dict''"
| "class_name (Cother n) = n"

fun str_of_type :: "type_field \<Rightarrow> string" where
  "str_of_type TNone = ''None''"
| "str_of_type (TClass c) = ''<class '' @ [CHR 0x27] @ class_name c @ [CHR 0x27] @ ''>''"
| "str_of_type (TStr s) = s"

fun truthy_type :: "type_field \<Rightarrow> bool" where
  "truthy_type TNone = False"
| "truthy_type (TClass c) = True"
| "truthy_type (TStr s) = (s \<noteq> [])"

definition format_type :: "type_field \<Rightarrow> string" where
  "format_type param_type =
     (if param_type = TClass Cstr then ''String''
      else if param_type = TClass Cint then ''Integer''
      else if param_type = TClass Cfloat then ''Float''
      else if param_type = TClass Cbool then ''Boolean''
      else if param_type = TClass Cdict then ''Dictionary''
      else if lower (str_of_type param_type) = ''file'' then ''Bytes''
      else if lower (str_of_type param_type) = ''datetime'' then ''DateTime''
      else if \<not> truthy_type param_type then ''Any''
      else title (str_of_type param_type))"

section \<open>Parameters\<close>

text \<open>
  Modelled from the spec: the class \<^verbatim>\<open>Parameter\<close> of \<^verbatim>\<open>brewtils.models\<close>, which is
  not among the sources. The fields are the keyword arguments that \<^verbatim>\<open>parameter\<close> and
  \<^verbatim>\<open>_initialize_parameter\<close> pass to its constructor. The scalar fields form the record
  \<open>attrs\<close> (\<^verbatim>\<open>type\<close> is \<open>ptype\<close> and \<^verbatim>\<open>default\<close> is \<open>default_value\<close>);
  the two fields that hold further parameters make the type recursive. An entry of a
  \<^verbatim>\<open>parameters\<close> list is, as \<^verbatim>\<open>_generate_nested_params\<close> tells them apart, a
  Parameter, an object with a \<^verbatim>\<open>parameters\<close> attribute (a model class) or anything
  else; a \<^verbatim>\<open>model\<close> is an object with a \<^verbatim>\<open>parameters\<close> attribute.
\<close>

record attrs =
  key :: "string option"
  ptype :: type_field
  multi :: "bool option"
  display_name :: pyval
  optional :: "bool option"
  default_value :: pyval
  description :: pyval
  choices :: choices_field
  nullable :: "bool option"
  maximum :: pyval
  minimum :: pyval
  regex :: pyval
  form_input_type :: pyval
  type_info :: pyval
  is_kwarg :: "bool option"

datatype parameter = Parameter (attrs: attrs) (parameters: "item list") (model: "model option")
  and item = PItem parameter | MItem model | OItem pyval
  and model = Model (model_parameters: "item list")

text \<open>Modelled from the spec: the constructor \<^verbatim>\<open>Parameter(key=k, optional=o)\<close> with
  every other argument left out: each field is absent, the list of children is empty
  and \<^verbatim>\<open>type_info\<close> is the empty mapping.\<close>

definition Parameter_init :: "string option \<Rightarrow> bool option \<Rightarrow> parameter" where
  "Parameter_init k opt =
     Parameter \<lparr>key = k, ptype = TNone, multi = None, display_name = PNone, optional = opt,
       default_value = PNone, description = PNone, choices = Raw PNone, nullable = None,
       maximum = PNone, minimum = PNone, regex = PNone, form_input_type = PNone,
       type_info = PDict [], is_kwarg = None\<rparr> [] None"

section \<open>Commands and methods\<close>

text \<open>
  Modelled from the spec: the class \<^verbatim>\<open>Command\<close> of \<^verbatim>\<open>brewtils.models\<close>
  (\<^verbatim>\<open>description\<close> is \<open>cmd_description\<close>, \<^verbatim>\<open>parameters\<close> is \<open>cmd_parameters\<close>).
  \<^verbatim>\<open>Command()\<close> has every field absent and a new, empty parameter list;
  \<^verbatim>\<open>parameter_keys()\<close> lists the keys in order and \<^verbatim>\<open>get_parameter_by_key(k)\<close> is
  the first parameter whose key is \<open>k\<close>.
\<close>

record Command =
  name :: pyval
  cmd_description :: pyval
  cmd_parameters :: "parameter list"
  command_type :: pyval
  output_type :: pyval
  schema :: pyval
  form :: pyval
  template :: pyval
  icon_name :: pyval
  hidden :: pyval

definition Command_init :: Command where
  "Command_init = \<lparr>name = PNone, cmd_description = PNone, cmd_parameters = [],
     command_type = PNone, output_type = PNone, schema = PNone, form = PNone,
     template = PNone, icon_name = PNone, hidden = PBool False\<rparr>"

definition parameter_keys :: "Command \<Rightarrow> string option list" where
  "parameter_keys cmd = map (\<lambda>p. key (attrs p)) (cmd_parameters cmd)"

text \<open>
  A method as the compiler sees it: the name and docstring of its function, the formal
  parameters of \<^verbatim>\<open>inspect.signature(method)\<close> (of a bound method, so without the
  receiver), and the two attributes the decorators attach, each absent
  (\<^verbatim>\<open>hasattr\<close> is false) or present. \<open>arg_default\<close> is \<open>None\<close> for
  \<^verbatim>\<open>inspect.Parameter.empty\<close>.
\<close>

datatype param_kind =
  POSITIONAL_ONLY | POSITIONAL_OR_KEYWORD | VAR_POSITIONAL | KEYWORD_ONLY | VAR_KEYWORD

record sig_param =
  arg_name :: string
  arg_kind :: param_kind
  arg_default :: "pyval option"

record bound_method =
  func_name :: string
  func_doc :: "string option"
  signature :: "sig_param list"
  command_attr :: "Command option"
  parameters_attr :: "parameter list option"

section \<open>The parameter normalizer\<close>

text \<open>\<^verbatim>\<open>_validate_kwargness\<close>: the value it returns is the default of the matching
  formal parameter, or \<^verbatim>\<open>None\<close> where the function falls off its end. The loop keeps
  the last formal parameter whose name is the key.\<close>

definition validate_kwargness :: "bound_method \<Rightarrow> attrs \<Rightarrow> error + pyval" where
  "validate_kwargness wrapped param =
     (let sig_param = List.find (\<lambda>p. Some (arg_name p) = key param) (rev (signature wrapped));
          has_kwargs = list_ex (\<lambda>p. arg_kind p = VAR_KEYWORD) (signature wrapped)
      in case sig_param of
           None \<Rightarrow>
             (if is_kwarg param = Some False then Inl (PluginParamError NotFoundInSignature)
              else if \<not> has_kwargs then Inl (PluginParamError NoVarKeyword)
              else Inr PNone)
         | Some sp \<Rightarrow>
             (if is_kwarg param = Some True then Inl (PluginParamError KwargFoundInSignature)
              else if arg_kind sp = POSITIONAL_ONLY
                then Inl (PluginParamError PositionalOnlyUnsupported)
              else (case arg_default sp of None \<Rightarrow> Inr PNone | Some d \<Rightarrow> Inr d)))"

text \<open>Lines 534 to 553 of \<^verbatim>\<open>_initialize_parameter\<close>: the key, the type, the choices,
  the default of the signature (top-level parameters only, \<open>func\<close> given) and the two
  fix-ups by type.\<close>

definition adopt_default :: "bound_method option \<Rightarrow> attrs \<Rightarrow> error + attrs" where
  "adopt_default func param =
     (case func of
        None \<Rightarrow> Inr param
      | Some f \<Rightarrow>
          (case validate_kwargness f param of
             Inl e \<Rightarrow> Inl e
           | Inr func_default \<Rightarrow>
               Inr (if truthy func_default \<and> default_value param = PNone
                    then param\<lparr>default_value := func_default\<rparr> else param)))"

definition type_fixups :: "attrs \<Rightarrow> attrs" where
  "type_fixups param =
     (let p1 = (if ptype param = TStr ''Bytes''
                then param\<lparr>type_info := PDict [(''storage'', PStr ''gridfs'')]\<rparr> else param)
      in if ptype p1 = TStr ''Base64'' then p1\<lparr>default_value := PNone\<rparr> else p1)"

definition initialize_attrs :: "parser \<Rightarrow> bound_method option \<Rightarrow> attrs \<Rightarrow> error + attrs" where
  "initialize_attrs parse func param =
     (if key param = None then Inl (PluginParamError NoKey)
      else case format_choices parse (choices param) of
        Inl e \<Rightarrow> Inl e
      | Inr ch \<Rightarrow>
          (case adopt_default func (param\<lparr>ptype := TStr (format_type (ptype param)), choices := ch\<rparr>) of
             Inl e \<Rightarrow> Inl e
           | Inr p \<Rightarrow> Inr (type_fixups p)))"

text \<open>Lines 567 to 570: the default of a model-backed parameter, from the defaults of
  its normalized children (each has a key, or normalization had failed).\<close>

fun synthesize_default :: "parameter list \<Rightarrow> (string \<times> pyval) list \<Rightarrow> (string \<times> pyval) list" where
  "synthesize_default [] d = d"
| "synthesize_default (nested_param # rest) d =
     synthesize_default rest
       (case key (attrs nested_param) of
          Some k \<Rightarrow>
            if truthy (default_value (attrs nested_param))
            then dict_set d k (default_value (attrs nested_param)) else d
        | None \<Rightarrow> d)"

text \<open>
  \<^verbatim>\<open>_initialize_parameter\<close> (from line 555 on) and \<^verbatim>\<open>_generate_nested_params\<close>.
  The source works in place: the Parameter it is given is the one it returns, and the
  Parameters of a list it is given are normalized where they stand. So the result of
  \<open>initialize_parameter\<close> is the state of that object after the call, the
  \<^verbatim>\<open>model\<close> attribute included (the model's list holds the same, now normalized,
  Parameter objects), and \<open>generate_nested_params\<close> returns the new list
  \<^verbatim>\<open>initialized_params\<close> together with the state of the list it walked.
\<close>

fun initialize_parameter :: "parser \<Rightarrow> bound_method option \<Rightarrow> parameter \<Rightarrow> error + parameter"
  and generate_nested_params :: "parser \<Rightarrow> item list \<Rightarrow> error + (parameter list \<times> item list)"
where
  "initialize_parameter parse func (Parameter a ps m) =
     (case initialize_attrs parse func a of
        Inl e \<Rightarrow> Inl e
      | Inr a' \<Rightarrow>
          if ps \<noteq> [] then
            (case generate_nested_params parse ps of
               Inl e \<Rightarrow> Inl e
             | Inr (initialized_params, ps') \<Rightarrow>
                 Inr (Parameter (a'\<lparr>ptype := TStr ''Dictionary''\<rparr>) (map PItem initialized_params) m))
          else
            (case m of
               None \<Rightarrow> Inr (Parameter a' ps m)
             | Some (Model mps) \<Rightarrow>
                 (case generate_nested_params parse mps of
                    Inl e \<Rightarrow> Inl e
                  | Inr (initialized_params, mps') \<Rightarrow>
                      Inr (Parameter
                        (if nullable a' \<noteq> Some True \<and> \<not> truthy (default_value a')
                         then a'\<lparr>ptype := TStr ''Dictionary'',
                                 default_value := PDict (synthesize_default initialized_params [])\<rparr>
                         else a'\<lparr>ptype := TStr ''Dictionary''\<rparr>)
                        (map PItem initialized_params) (Some (Model mps'))))))"
| "generate_nested_params parse [] = Inr ([], [])"
| "generate_nested_params parse (PItem param # rest) =
     (case initialize_parameter parse None param of
        Inl e \<Rightarrow> Inl e
      | Inr p' \<Rightarrow>
          (case generate_nested_params parse rest of
             Inl e \<Rightarrow> Inl e
           | Inr (initialized_params, rest') \<Rightarrow> Inr (p' # initialized_params, PItem p' # rest')))"
| "generate_nested_params parse (MItem (Model mps) # rest) =
     (case generate_nested_params parse mps of
        Inl e \<Rightarrow> Inl e
      | Inr (inner, mps') \<Rightarrow>
          (case generate_nested_params parse rest of
             Inl e \<Rightarrow> Inl e
           | Inr (initialized_params, rest') \<Rightarrow>
               Inr (inner @ initialized_params, MItem (Model mps') # rest')))"
| "generate_nested_params parse (OItem v # rest) = Inl (PluginParamError UnableToGenerate)"

section \<open>The signature merger\<close>

text \<open>
  The outside world of the compiler: the choices grammar, and what
  \<^verbatim>\<open>_resolve_display_modifiers\<close> reads (\<^verbatim>\<open>_load_from_url\<close>, \<^verbatim>\<open>_load_from_path\<close>
  and \<^verbatim>\<open>json.loads\<close>), each of which returns or raises.
\<close>

record env =
  choices_parse :: parser
  load_from_url :: "string \<Rightarrow> error + pyval"
  load_from_path :: "string \<Rightarrow> error + string"
  json_loads :: "string \<Rightarrow> error + pyval"

definition function_name :: "bound_method \<Rightarrow> string" where
  "function_name func = func_name func"

text \<open>\<^verbatim>\<open>docstring.split("\n")[0] if docstring else None\<close>.\<close>

definition function_docstring :: "bound_method \<Rightarrow> pyval" where
  "function_docstring func =
     (case func_doc func of
        None \<Rightarrow> PNone
      | Some docstring \<Rightarrow>
          if docstring = [] then PNone else PStr (takeWhile (\<lambda>c. c \<noteq> CHR 0x0A) docstring))"

datatype modifier = Schema | Form | Template

text \<open>One turn of the loop of \<^verbatim>\<open>_resolve_display_modifiers\<close>. Whatever is raised
  inside the \<^verbatim>\<open>try\<close>, the \<^verbatim>\<open>PluginParamError\<close> of its last branch included, is
  raised again as the "Error reading" \<^verbatim>\<open>PluginParamError\<close>.\<close>

definition resolve_modifier :: "env \<Rightarrow> modifier \<Rightarrow> pyval \<Rightarrow> error + pyval" where
  "resolve_modifier env k v =
     (case v of
        PStr s \<Rightarrow>
          (if startswith s ''http'' then
             (case load_from_url env s of
                Inl e \<Rightarrow> Inl (PluginParamError ErrorReadingDefinition)
              | Inr r \<Rightarrow> Inr r)
           else if startswith s ''/'' \<or> startswith s ''.'' then
             (case load_from_path env s of
                Inl e \<Rightarrow> Inl (PluginParamError ErrorReadingDefinition)
              | Inr loaded_value \<Rightarrow>
                  if k = Template then Inr (PStr loaded_value)
                  else (case json_loads env loaded_value of
                          Inl e \<Rightarrow> Inl (PluginParamError ErrorReadingDefinition)
                        | Inr r \<Rightarrow> Inr r))
           else if k = Template then Inr v
           else Inl (PluginParamError ErrorReadingDefinition))
      | _ \<Rightarrow>
          (if v = PNone \<or> ((k = Schema \<or> k = Form) \<and> is_dict v) then Inr v
           else if k = Form \<and> is_list v
             then Inr (PDict [(''type'', PStr ''fieldset''), (''items'', v)])
           else Inl (PluginParamError NotADefinition)))"

definition resolve_display_modifiers ::
  "env \<Rightarrow> pyval \<Rightarrow> pyval \<Rightarrow> pyval \<Rightarrow> error + (pyval \<times> pyval \<times> pyval)" where
  "resolve_display_modifiers env schema_v form_v template_v =
     (case resolve_modifier env Schema schema_v of
        Inl e \<Rightarrow> Inl e
      | Inr s \<Rightarrow>
          (case resolve_modifier env Form form_v of
             Inl e \<Rightarrow> Inl e
           | Inr f \<Rightarrow>
               (case resolve_modifier env Template template_v of
                  Inl e \<Rightarrow> Inl e
                | Inr t \<Rightarrow> Inr (s, f, t))))"

text \<open>The body of the loop over the formal parameters in \<^verbatim>\<open>_initialize_command\<close>:
  a formal parameter whose name is no key yet gets a new Parameter; otherwise the first
  Parameter with that key (\<^verbatim>\<open>get_parameter_by_key\<close>) is marked non-optional when its
  flag is unset.\<close>

fun mark_required :: "string \<Rightarrow> parameter list \<Rightarrow> parameter list" where
  "mark_required k [] = []"
| "mark_required k (Parameter a ps m # rest) =
     (if key a = Some k
      then (if optional a = None then Parameter (a\<lparr>optional := Some False\<rparr>) ps m # rest
            else Parameter a ps m # rest)
      else Parameter a ps m # mark_required k rest)"

definition merge_arg :: "sig_param \<Rightarrow> parameter list \<Rightarrow> parameter list" where
  "merge_arg arg params =
     (if Some (arg_name arg) \<notin> set (map (\<lambda>p. key (attrs p)) params)
      then params @ [Parameter_init (Some (arg_name arg)) (Some False)]
      else mark_required (arg_name arg) params)"

text \<open>The Parameters a method declares before its signature is read: those of its raw
  Command, then those of its \<^verbatim>\<open>parameters\<close> attribute.\<close>

definition raw_command :: "bound_method \<Rightarrow> Command" where
  "raw_command m = (case command_attr m of None \<Rightarrow> Command_init | Some c \<Rightarrow> c)"

definition annotated :: "'a bound_method_scheme \<Rightarrow> parameter list" where
  "annotated m = (case parameters_attr m of None \<Rightarrow> [] | Some ps \<Rightarrow> ps)"

definition declared :: "bound_method \<Rightarrow> parameter list" where
  "declared m = cmd_parameters (raw_command m) @ annotated m"

definition initialize_command :: "env \<Rightarrow> bound_method \<Rightarrow> error + Command" where
  "initialize_command env m =
     (let cmd = raw_command m;
          descr = (if truthy (cmd_description cmd) then cmd_description cmd
                   else function_docstring m)
      in case resolve_display_modifiers env (schema cmd) (form cmd) (template cmd) of
           Inl e \<Rightarrow> Inl e
         | Inr (s, f, t) \<Rightarrow>
             Inr (cmd\<lparr>name := PStr (function_name m), cmd_description := descr,
                      schema := s, form := f, template := t,
                      cmd_parameters := fold merge_arg (signature m) (declared m)\<rparr>))"

section \<open>The metadata collector\<close>

text \<open>The loop of \<^verbatim>\<open>parse_client\<close> over the parameters of one Command.\<close>

fun initialize_parameters :: "parser \<Rightarrow> bound_method \<Rightarrow> parameter list \<Rightarrow> error + parameter list" where
  "initialize_parameters parse m [] = Inr []"
| "initialize_parameters parse m (p # ps) =
     (case initialize_parameter parse (Some m) p of
        Inl e \<Rightarrow> Inl e
      | Inr p' \<Rightarrow>
          (case initialize_parameters parse m ps of
             Inl e \<Rightarrow> Inl e
           | Inr ps' \<Rightarrow> Inr (p' # ps')))"

text \<open>
  One method of \<^verbatim>\<open>parse_client\<close>. \<^verbatim>\<open>_initialize_command\<close> updates the Command
  attached to the method where there is one (\<^verbatim>\<open>getattr(method, "_command", Command())\<close>
  makes a new one only when the attribute is missing) and extends its list with the
  Parameter objects of the method's \<^verbatim>\<open>parameters\<close> attribute; the loop then
  normalizes each of them in place. So the method is returned as well, in its state after
  the call: its \<^verbatim>\<open>_command\<close> is the Command returned, and its \<^verbatim>\<open>parameters\<close> are the
  stretch of the Command's list that came from it.
\<close>

definition parse_method :: "env \<Rightarrow> bound_method \<Rightarrow> error + (Command \<times> bound_method)" where
  "parse_method env m =
     (case initialize_command env m of
        Inl e \<Rightarrow> Inl e
      | Inr cmd \<Rightarrow>
          (case initialize_parameters (choices_parse env) m (cmd_parameters cmd) of
             Inl e \<Rightarrow> Inl e
           | Inr ps' \<Rightarrow>
               let method_command = cmd\<lparr>cmd_parameters := ps'\<rparr> in
               Inr (method_command,
                    m\<lparr>command_attr :=
                        (case command_attr m of None \<Rightarrow> None | Some c \<Rightarrow> Some method_command),
                      parameters_attr :=
                        (case parameters_attr m of
                           None \<Rightarrow> None
                         | Some ps \<Rightarrow>
                             Some (take (length ps)
                               (drop (length (cmd_parameters (raw_command m))) ps')))\<rparr>)))"

text \<open>A client is the list of its attributes in the order of \<^verbatim>\<open>dir\<close>; each is a
  bound method or something else.\<close>

datatype attribute = Method bound_method | Attribute

fun parse_client :: "env \<Rightarrow> attribute list \<Rightarrow> error + (Command list \<times> attribute list)" where
  "parse_client env [] = Inr ([], [])"
| "parse_client env (Attribute # rest) =
     (case parse_client env rest of
        Inl e \<Rightarrow> Inl e
      | Inr (bg_commands, rest') \<Rightarrow> Inr (bg_commands, Attribute # rest'))"
| "parse_client env (Method m # rest) =
     (if command_attr m \<noteq> None \<or> parameters_attr m \<noteq> None then
        (case parse_method env m of
           Inl e \<Rightarrow> Inl e
         | Inr (method_command, m') \<Rightarrow>
             (case parse_client env rest of
                Inl e \<Rightarrow> Inl e
              | Inr (bg_commands, rest') \<Rightarrow> Inr (method_command # bg_commands, Method m' # rest')))
      else
        (case parse_client env rest of
           Inl e \<Rightarrow> Inl e
         | Inr (bg_commands, rest') \<Rightarrow> Inr (bg_commands, Method m # rest')))"

section \<open>The decorators\<close>

text \<open>
  \<^verbatim>\<open>command\<close> and \<^verbatim>\<open>parameter\<close>, applied to the function \<open>wrapped\<close> or, with
  \<^verbatim>\<open>_wrapped=None\<close>, returning the \<^verbatim>\<open>functools.partial\<close> that waits for it. The
  second argument is the object that the constructor call in the body builds from the
  keyword arguments, and \<open>annotated w\<close> is \<^verbatim>\<open>getattr(_wrapped, "parameters", [])\<close>. Whatever else the function object holds (its code, its other
  attributes) is the extension of the record.
\<close>

datatype 'a decorated = Partial "'a \<Rightarrow> 'a" | Wrapped 'a


definition parameter :: "'a bound_method_scheme option \<Rightarrow> parameter \<Rightarrow> 'a bound_method_scheme decorated" where
  "parameter wrapped p =
     (case wrapped of
        None \<Rightarrow> Partial (\<lambda>w. w\<lparr>parameters_attr := Some (annotated w @ [p])\<rparr>)
      | Some w \<Rightarrow> Wrapped (w\<lparr>parameters_attr := Some (annotated w @ [p])\<rparr>))"

section \<open>The parameter tree\<close>

text \<open>
  Every Parameter of the tree under a Parameter: itself, the Parameters of its
  \<^verbatim>\<open>parameters\<close> list and, for an entry that is a model class, the Parameters of that
  class, at any depth. \<open>flat_items\<close> lists the Parameters a list of entries holds, a
  model class standing for its own.
\<close>

fun subparams :: "parameter \<Rightarrow> parameter list"
  and subparams_items :: "item list \<Rightarrow> parameter list" where
  "subparams (Parameter a ps m) = Parameter a ps m # subparams_items ps"
| "subparams_items [] = []"
| "subparams_items (PItem p # rest) = subparams p @ subparams_items rest"
| "subparams_items (MItem (Model mps) # rest) = subparams_items mps @ subparams_items rest"
| "subparams_items (OItem v # rest) = subparams_items rest"


definition dictionary_typed :: "parameter \<Rightarrow> bool" where
  "dictionary_typed p =
     list_all (\<lambda>q. parameters q = [] \<or> ptype (attrs q) = TStr ''Dictionary'') (subparams p)"




text \<open>The keys of a list of Parameters, in order (\<^verbatim>\<open>parameter_keys\<close> of a Command is
  \<open>keys_of\<close> of its list), and the condition on an attribute of a client that the
  Parameters its method declares, in its raw Command and in its annotations, have
  pairwise distinct keys.\<close>

definition keys_of :: "parameter list \<Rightarrow> string option list" where
  "keys_of ps = map (\<lambda>p. key (attrs p)) ps"



section \<open>Stand-ins for the outside world\<close>

text \<open>
  Concrete values for the examples below: a grammar that accepts every text and returns
  it as its own descriptor, a world in which nothing can be fetched or read, a Parameter
  with every field absent, and a method without docstring and annotations.
\<close>

definition echo_parse :: parser where
  "echo_parse unparsed_value kind = Inr unparsed_value"

definition offline :: env where
  "offline = \<lparr>choices_parse = echo_parse, load_from_url = (\<lambda>url. Inl OtherError),
     load_from_path = (\<lambda>path. Inl OtherError), json_loads = (\<lambda>text. Inl OtherError)\<rparr>"

definition blank :: attrs where
  "blank = \<lparr>key = None, ptype = TNone, multi = None, display_name = PNone, optional = None,
     default_value = PNone, description = PNone, choices = Raw PNone, nullable = None,
     maximum = PNone, minimum = PNone, regex = PNone, form_input_type = PNone,
     type_info = PDict [], is_kwarg = None\<rparr>"

definition plain_method :: "string \<Rightarrow> sig_param list \<Rightarrow> bound_method" where
  "plain_method n sig = \<lparr>func_name = n, func_doc = None, signature = sig,
     command_attr = None, parameters_attr = None\<rparr>"

definition required_arg :: "string \<Rightarrow> sig_param" where
  "required_arg n = \<lparr>arg_name = n, arg_kind = POSITIONAL_OR_KEYWORD, arg_default = None\<rparr>"

definition defaulted_arg :: "string \<Rightarrow> pyval \<Rightarrow> sig_param" where
  "defaulted_arg n d = \<lparr>arg_name = n, arg_kind = POSITIONAL_OR_KEYWORD, arg_default = Some d\<rparr>"

definition keyed :: "string \<Rightarrow> parameter" where
  "keyed k = Parameter (blank\<lparr>key := Some k\<rparr>) [] None"

definition keyed_default :: "string \<Rightarrow> pyval \<Rightarrow> parameter" where
  "keyed_default k d = Parameter (blank\<lparr>key := Some k, default_value := d\<rparr>) [] None"

text \<open>What \<open>keyed\<close> and \<open>keyed_default\<close> normalize to when nothing but the type
  changes.\<close>

definition keyed_any :: "string \<Rightarrow> pyval \<Rightarrow> bool option \<Rightarrow> parameter" where
  "keyed_any k d opt =
     Parameter (blank\<lparr>key := Some k, ptype := TStr ''Any'', optional := opt, default_value := d\<rparr>) [] None"

text \<open>The method \<^verbatim>\<open>ship(self, address)\<close> whose annotation gives \<^verbatim>\<open>address\<close> the
  child \<^verbatim>\<open>street\<close>, and what it compiles to.\<close>

definition example_address :: parameter where
  "example_address = Parameter (blank\<lparr>key := Some ''address''\<rparr>) [PItem (keyed ''street'')] None"

definition example_ship :: bound_method where
  "example_ship = (plain_method ''ship'' [required_arg ''address''])
     \<lparr>parameters_attr := Some [example_address]\<rparr>"

definition normalized_address :: parameter where
  "normalized_address =
     Parameter (blank\<lparr>key := Some ''address'', ptype := TStr ''Dictionary'', optional := Some False\<rparr>)
       [PItem (keyed_any ''street'' PNone None)] None"

definition ship_command :: Command where
  "ship_command = Command_init\<lparr>name := PStr ''ship'', cmd_parameters := [normalized_address]\<rparr>"

text \<open>Further methods for the examples: \<^verbatim>\<open>f(self, b=5)\<close> annotated with the key
  \<^verbatim>\<open>b\<close>; \<^verbatim>\<open>g(self, a, **kwargs)\<close> annotated with the keys \<^verbatim>\<open>a\<close> and
  \<^verbatim>\<open>extra\<close>, and its Command; \<^verbatim>\<open>f(self, x)\<close> annotated twice with the key \<^verbatim>\<open>x\<close>;
  \<^verbatim>\<open>f(self, x)\<close> with a raw Command and one annotation with the key \<^verbatim>\<open>x\<close>, its
  Command and its state after the first and the second compilation; and a model whose
  parameter \<^verbatim>\<open>colour\<close> has the choices \<^verbatim>\<open>["red"]\<close>.\<close>

definition defaulted_b :: bound_method where
  "defaulted_b = (plain_method ''f'' [defaulted_arg ''b'' (PInt 5)])
     \<lparr>parameters_attr := Some [keyed ''b'']\<rparr>"

definition with_kwargs :: bound_method where
  "with_kwargs =
     (plain_method ''g'' [required_arg ''a'',
        \<lparr>arg_name = ''kwargs'', arg_kind = VAR_KEYWORD, arg_default = None\<rparr>])
     \<lparr>parameters_attr := Some [keyed ''a'', keyed ''extra'']\<rparr>"

definition with_kwargs_command :: Command where
  "with_kwargs_command = Command_init\<lparr>name := PStr ''g'',
     cmd_parameters := [Parameter (blank\<lparr>key := Some ''a'', optional := Some False\<rparr>) [] None,
                        keyed ''extra'', Parameter_init (Some ''kwargs'') (Some False)]\<rparr>"










lemmas eval_defs = initialize_attrs_def adopt_default_def type_fixups_def format_type_def
  lower_def lower_char_def upper_char_def is_cased_def title_def upper_letters_def lower_letters_def
  blank_def echo_parse_def plain_method_def validate_kwargness_def
  parse_method_def initialize_command_def resolve_display_modifiers_def resolve_modifier_def
  raw_command_def annotated_def declared_def merge_arg_def Parameter_init_def Command_init_def
  function_name_def function_docstring_def offline_def parameter_keys_def Let_def
  required_arg_def defaulted_arg_def keyed_def keyed_default_def keyed_any_def

section \<open>Choices: the type inferred from the value\<close>

lemma choices_of_dict_type:
  assumes "choices_of_dict d = Inr (v, disp, choice_type, strict_v)"
      and "dict_get d ''type'' = PNone"
  shows "v = dict_get d ''value'' \<and> choice_type = PStr (determine_type (dict_get d ''value''))"
  using assms
  by (auto simp: choices_of_dict_def dict_choice_type_def Let_def split: if_splits sum.splits)

text \<open>
  C2, as the code has it. A choices mapping without a \<^verbatim>\<open>type\<close> entry that resolves to
  a Choices gets its type from the value alone: \<^verbatim>\<open>url\<close> for a string that starts with
  \<^verbatim>\<open>http\<close>, \<^verbatim>\<open>command\<close> for any other string, \<^verbatim>\<open>static\<close> for every value that
  is no string, a mapping with the key \<^verbatim>\<open>command\<close> included.
\<close>

theorem format_choices_inferred_type:
  assumes "format_choices parse (Raw (PDict d)) = Inr (Resolved c)"
      and "map_of d ''type'' = None"
  shows "choices_type c =
           (case dict_get d ''value'' of
              PStr s \<Rightarrow> if startswith s ''http'' then PStr ''url'' else PStr ''command''
            | _ \<Rightarrow> PStr ''static'')"
proof -
  from assms(2) have t: "dict_get d ''type'' = PNone" by (simp add: dict_get_def)
  from assms(1) obtain v disp choice_type strict_v where
    c: "choices_of_dict d = Inr (v, disp, choice_type, strict_v)" and "choices_type c = choice_type"
    by (auto split: if_splits sum.splits)
  with choices_of_dict_type [OF c t] show ?thesis
    by (cases "dict_get d ''value''") auto
qed

theorem format_choices_inferred_type_witness:
  "format_choices echo_parse (Raw (PDict [(''value'', PStr ''roll_dice'')])) =
     Inr (Resolved \<lparr>choices_type = PStr ''command'', display = PStr ''typeahead'',
       choices_value = PStr ''roll_dice'', strict = PBool True, details = PStr ''roll_dice''\<rparr>)
   \<and> map_of [(''value'', PStr ''roll_dice'')] ''type'' = None
   \<and> choices_type \<lparr>choices_type = PStr ''command'', display = PStr ''typeahead'',
       choices_value = PStr ''roll_dice'', strict = PBool True, details = PStr ''roll_dice''\<rparr>
      = PStr ''command''"
proof -
  have r: "format_choices echo_parse (Raw (PDict [(''value'', PStr ''roll_dice'')])) =
     Inr (Resolved \<lparr>choices_type = PStr ''command'', display = PStr ''typeahead'',
       choices_value = PStr ''roll_dice'', strict = PBool True, details = PStr ''roll_dice''\<rparr>)"
    by (simp add: choices_of_dict_def dict_choice_type_def dict_get_def dict_get_default_def
        Choices_DISPLAYS_def choices_details_def caught_def echo_parse_def)
  have t: "map_of [(''value'', PStr ''roll_dice'')] ''type'' = None" by simp
  show ?thesis using r t format_choices_inferred_type [OF r t] by simp
qed

text \<open>
  C2 as stated fails: the mapping \<^verbatim>\<open>{"value": {"command": "roll_dice"},
  "key_reference": "${die}"}\<close> has a mapping value with the key \<^verbatim>\<open>command\<close> and no
  type, and it resolves to the type \<^verbatim>\<open>static\<close>, not \<^verbatim>\<open>command\<close>.
\<close>

theorem mapping_with_command_key_is_static:
  "format_choices echo_parse
     (Raw (PDict [(''value'', PDict [(''command'', PStr ''roll_dice'')]),
                  (''key_reference'', PStr ''${die}'')])) =
   Inr (Resolved \<lparr>choices_type = PStr ''static'', display = PStr ''select'',
     choices_value = PDict [(''command'', PStr ''roll_dice'')], strict = PBool True,
     details = PDict [(''key_reference'', PStr ''${die}'')]\<rparr>)"
  by (simp add: choices_of_dict_def dict_choice_type_def dict_get_def dict_get_default_def
      Choices_DISPLAYS_def choices_details_def caught_def echo_parse_def)

section \<open>Defaults taken from the model and from the signature\<close>

text \<open>
  C1, at the input where the code departs from it. A model-backed Parameter, not nullable
  and without default, whose model has the one parameter \<^verbatim>\<open>x\<close> with the declared
  default \<^verbatim>\<open>0\<close>: the default synthesized is the empty mapping, not \<^verbatim>\<open>{"x": 0}\<close>.
  Line 569 tests the truth value of the child's default, so a declared default that is
  falsy is left out like an absent one.
\<close>

theorem model_default_omits_falsy_child:
  "map_sum id (\<lambda>n. default_value (attrs n))
     (initialize_parameter echo_parse None
        (Parameter (blank\<lparr>key := Some ''m''\<rparr>) [] (Some (Model [PItem (keyed_default ''x'' (PInt 0))]))))
   = Inr (PDict [])"
  by (simp add: eval_defs)

text \<open>
  C3, at the input where the code departs from it. The method \<^verbatim>\<open>def f(self, b=0)\<close>
  with the annotation \<^verbatim>\<open>@parameter(key="b")\<close>: the Parameter's default stays
  \<^verbatim>\<open>None\<close>, the default \<^verbatim>\<open>0\<close> of the formal parameter is not adopted. Line 543 tests
  the truth value of what \<^verbatim>\<open>_validate_kwargness\<close> returned.
\<close>

theorem falsy_signature_default_not_adopted:
  "map_sum id (\<lambda>n. default_value (attrs n))
     (initialize_parameter echo_parse
        (Some (plain_method ''f'' [defaulted_arg ''b'' (PInt 0)])) (keyed ''b''))
   = Inr PNone"
  by (simp add: eval_defs)

section \<open>The model of a model-backed Parameter\<close>

text \<open>
  C9, as the code has it. Normalizing a Parameter that has a model and no children of its
  own gives a Parameter of type Dictionary whose children are the normalized parameters of
  the model; its \<^verbatim>\<open>model\<close> attribute is still there, holding the model whose
  parameters were normalized in place.
\<close>

theorem model_backed_result:
  assumes "initialize_parameter parse func (Parameter a [] (Some (Model mps))) = Inr n"
  shows "\<exists>initialized_params mps'.
           generate_nested_params parse mps = Inr (initialized_params, mps')
         \<and> parameters n = map PItem initialized_params
         \<and> ptype (attrs n) = TStr ''Dictionary''
         \<and> model n = Some (Model mps')"
  using assms by (auto split: sum.splits if_splits)

theorem model_backed_result_witness:
  "initialize_parameter echo_parse None
     (Parameter (blank\<lparr>key := Some ''m''\<rparr>) [] (Some (Model [PItem (keyed ''x'')])))
   = Inr (Parameter (blank\<lparr>key := Some ''m'', ptype := TStr ''Dictionary'', default_value := PDict []\<rparr>)
            [PItem (keyed_any ''x'' PNone None)] (Some (Model [PItem (keyed_any ''x'' PNone None)])))
   \<and> (\<exists>initialized_params mps'.
           generate_nested_params echo_parse [PItem (keyed ''x'')] = Inr (initialized_params, mps')
         \<and> parameters (Parameter (blank\<lparr>key := Some ''m'', ptype := TStr ''Dictionary'', default_value := PDict []\<rparr>)
            [PItem (keyed_any ''x'' PNone None)] (Some (Model [PItem (keyed_any ''x'' PNone None)])))
             = map PItem initialized_params
         \<and> model (Parameter (blank\<lparr>key := Some ''m'', ptype := TStr ''Dictionary'', default_value := PDict []\<rparr>)
            [PItem (keyed_any ''x'' PNone None)] (Some (Model [PItem (keyed_any ''x'' PNone None)])))
             = Some (Model mps'))"
proof -
  have r: "initialize_parameter echo_parse None
     (Parameter (blank\<lparr>key := Some ''m''\<rparr>) [] (Some (Model [PItem (keyed ''x'')])))
   = Inr (Parameter (blank\<lparr>key := Some ''m'', ptype := TStr ''Dictionary'', default_value := PDict []\<rparr>)
            [PItem (keyed_any ''x'' PNone None)] (Some (Model [PItem (keyed_any ''x'' PNone None)])))"
    by (simp add: eval_defs)
  from model_backed_result [OF r] r show ?thesis by blast
qed

text \<open>
  C9 as stated fails: after normalization the \<^verbatim>\<open>model\<close> attribute of the Parameter
  \<^verbatim>\<open>m\<close> is not absent.
\<close>

theorem model_is_retained:
  "map_sum id model
     (initialize_parameter echo_parse None
        (Parameter (blank\<lparr>key := Some ''m''\<rparr>) [] (Some (Model [PItem (keyed ''x'')]))))
   = Inr (Some (Model [PItem (keyed_any ''x'' PNone None)]))"
  by (simp add: eval_defs)

section \<open>The decorators change one attribute\<close>


section \<open>Nested parameters are dictionaries\<close>

lemma subparams_items_PItems: "subparams_items (map PItem xs) = concat (map subparams xs)"
  by (induction xs) auto

lemma dictionary_typed_Parameter:
  "dictionary_typed (Parameter a (map PItem xs) m) \<longleftrightarrow>
     (xs = [] \<or> ptype a = TStr ''Dictionary'') \<and> list_all dictionary_typed xs"
  by (auto simp: dictionary_typed_def subparams_items_PItems list_all_iff)

lemma normalized_dictionary_typed:
  "(\<forall>n. initialize_parameter parse func p = Inr n \<longrightarrow> dictionary_typed n)"
  "(\<forall>ips its'. generate_nested_params parse its = Inr (ips, its') \<longrightarrow> list_all dictionary_typed ips)"
proof (induction parse func p and parse its rule: initialize_parameter_generate_nested_params.induct)
  case (1 parse func a ps m)
  show ?case
  proof (intro allI impI)
    fix n assume n: "initialize_parameter parse func (Parameter a ps m) = Inr n"
    then obtain a' where a': "initialize_attrs parse func a = Inr a'"
      by (auto split: sum.splits)
    show "dictionary_typed n"
    proof (cases "ps \<noteq> []")
      case True
      with n a' obtain ips ps' where g: "generate_nested_params parse ps = Inr (ips, ps')"
        and "n = Parameter (a'\<lparr>ptype := TStr ''Dictionary''\<rparr>) (map PItem ips) m"
        by (auto split: sum.splits)
      moreover from "1.IH"(1) [OF a' True] g have "list_all dictionary_typed ips" by blast
      ultimately show ?thesis by (simp add: dictionary_typed_Parameter)
    next
      case False
      then have ps: "ps = []" by simp
      show ?thesis
      proof (cases m)
        case None
        with n a' ps have "n = Parameter a' [] None" by simp
        then show ?thesis by (simp add: dictionary_typed_def)
      next
        case (Some mm)
        obtain mps where mm: "mm = Model mps" by (cases mm)
        with n a' ps Some obtain ips mps' where g: "generate_nested_params parse mps = Inr (ips, mps')"
          and "parameters n = map PItem ips" "ptype (attrs n) = TStr ''Dictionary''"
          by (auto split: sum.splits if_splits)
        moreover from "1.IH"(2) [OF a' False Some mm] g have "list_all dictionary_typed ips" by blast
        ultimately show ?thesis by (cases n) (simp add: dictionary_typed_Parameter)
      qed
    qed
  qed
next
  case (2 parse)
  then show ?case by simp
next
  case (3 parse param rest)
  then show ?case by (auto split: sum.splits)
next
  case (4 parse mps rest)
  then show ?case by (auto split: sum.splits)
next
  case (5 parse v rest)
  then show ?case by simp
qed

lemma initialize_parameters_all:
  assumes "initialize_parameters parse m ps = Inr ps'" and "p' \<in> set ps'"
  shows "\<exists>p \<in> set ps. initialize_parameter parse (Some m) p = Inr p'"
  using assms
proof (induction ps arbitrary: ps')
  case Nil
  then show ?case by simp
next
  case (Cons p ps)
  from Cons.prems(1) obtain q qs where q: "initialize_parameter parse (Some m) p = Inr q"
    and qs: "initialize_parameters parse m ps = Inr qs" and ps': "ps' = q # qs"
    by (auto split: sum.splits)
  show ?case
  proof (cases "p' = q")
    case True
    with q show ?thesis by simp
  next
    case False
    with Cons.prems(2) ps' have "p' \<in> set qs" by simp
    from Cons.IH [OF qs this] show ?thesis by simp
  qed
qed

lemma parse_method_Inr:
  assumes "parse_method env m = Inr (cmd, m')"
  shows "\<exists>cmd0 ps'. initialize_command env m = Inr cmd0
           \<and> initialize_parameters (choices_parse env) m (cmd_parameters cmd0) = Inr ps'
           \<and> cmd = cmd0\<lparr>cmd_parameters := ps'\<rparr>"
proof (cases "initialize_command env m")
  case (Inl e)
  with assms show ?thesis by (simp add: parse_method_def)
next
  case (Inr cmd0)
  show ?thesis
  proof (cases "initialize_parameters (choices_parse env) m (cmd_parameters cmd0)")
    case (Inl e)
    with assms Inr show ?thesis by (simp add: parse_method_def)
  next
    case ps: (Inr ps')
    with assms Inr have "cmd = cmd0\<lparr>cmd_parameters := ps'\<rparr>"
      by (simp add: parse_method_def Let_def)
    with Inr ps show ?thesis by blast
  qed
qed

lemma parse_method_parameters:
  assumes "parse_method env m = Inr (cmd, m')" and "p' \<in> set (cmd_parameters cmd)"
  shows "\<exists>p. initialize_parameter (choices_parse env) (Some m) p = Inr p'"
proof -
  from parse_method_Inr [OF assms(1)] obtain cmd0 ps' where
    ps': "initialize_parameters (choices_parse env) m (cmd_parameters cmd0) = Inr ps'"
    and "cmd = cmd0\<lparr>cmd_parameters := ps'\<rparr>" by blast
  with assms(2) have "p' \<in> set ps'" by simp
  from initialize_parameters_all [OF ps' this] show ?thesis by blast
qed

lemma parse_client_commands:
  assumes "parse_client env client = Inr (bg_commands, client')" and "cmd \<in> set bg_commands"
  shows "\<exists>m m'. Method m \<in> set client \<and> parse_method env m = Inr (cmd, m')"
  using assms
proof (induction env client arbitrary: bg_commands client' rule: parse_client.induct)
  case (1 env)
  then show ?case by simp
next
  case (2 env rest)
  from "2.prems"(1) obtain rest' where "parse_client env rest = Inr (bg_commands, rest')"
    by (simp split: sum.splits prod.splits)
  from "2.IH" [OF this "2.prems"(2)] show ?case by auto
next
  case (3 env m rest)
  show ?case
  proof (cases "command_attr m \<noteq> None \<or> parameters_attr m \<noteq> None")
    case True
    with "3.prems"(1) obtain mc m' cmds rest' where pm: "parse_method env m = Inr (mc, m')"
      and pc: "parse_client env rest = Inr (cmds, rest')" and bg: "bg_commands = mc # cmds"
      by (auto split: sum.splits prod.splits)
    show ?thesis
    proof (cases "cmd = mc")
      case True
      with pm show ?thesis by auto
    next
      case False
      with "3.prems"(2) bg have "cmd \<in> set cmds" by simp
      from "3.IH"(1) [OF True pm refl pc this] show ?thesis by auto
    qed
  next
    case False
    with "3.prems"(1) obtain rest' where "parse_client env rest = Inr (bg_commands, rest')"
      by (simp split: sum.splits prod.splits)
    from "3.IH"(2) [OF False this "3.prems"(2)] show ?thesis by auto
  qed
qed

text \<open>
  C8. In every Command that \<^verbatim>\<open>parse_client\<close> returns, every Parameter of the tree
  under a top-level parameter that has a non-empty \<^verbatim>\<open>parameters\<close> list has the type
  \<^verbatim>\<open>Dictionary\<close>.
\<close>

theorem nested_parameters_are_dictionaries:
  assumes "parse_client env client = Inr (bg_commands, client')"
      and "cmd \<in> set bg_commands"
      and "p \<in> set (cmd_parameters cmd)"
      and "q \<in> set (subparams p)"
      and "parameters q \<noteq> []"
  shows "ptype (attrs q) = TStr ''Dictionary''"
proof -
  from parse_client_commands [OF assms(1,2)] obtain m m' where
    "parse_method env m = Inr (cmd, m')" by blast
  from parse_method_parameters [OF this assms(3)] obtain p0 where
    "initialize_parameter (choices_parse env) (Some m) p0 = Inr p" by blast
  with normalized_dictionary_typed(1) have "dictionary_typed p" by blast
  with assms(4,5) show ?thesis by (auto simp: dictionary_typed_def list_all_iff)
qed

theorem nested_parameters_are_dictionaries_witness:
  "parse_client offline [Method example_ship] =
     Inr ([ship_command], [Method (example_ship\<lparr>parameters_attr := Some [normalized_address]\<rparr>)])
   \<and> ship_command \<in> set [ship_command]
   \<and> normalized_address \<in> set (cmd_parameters ship_command)
   \<and> normalized_address \<in> set (subparams normalized_address)
   \<and> parameters normalized_address \<noteq> []
   \<and> ptype (attrs normalized_address) = TStr ''Dictionary''"
proof -
  have r: "parse_client offline [Method example_ship] =
     Inr ([ship_command], [Method (example_ship\<lparr>parameters_attr := Some [normalized_address]\<rparr>)])"
    by (simp add: eval_defs example_ship_def example_address_def normalized_address_def
        ship_command_def)
  have c: "ship_command \<in> set [ship_command]" by simp
  have p: "normalized_address \<in> set (cmd_parameters ship_command)"
    by (simp add: ship_command_def)
  have q: "normalized_address \<in> set (subparams normalized_address)"
    by (simp add: normalized_address_def)
  have ne: "parameters normalized_address \<noteq> []" by (simp add: normalized_address_def)
  from nested_parameters_are_dictionaries [OF r c p q ne] r c p q ne show ?thesis by blast
qed

section \<open>Keys and flags after the signature is merged\<close>

lemma keys_of_simps [simp]:
  "keys_of [] = []" "keys_of (p # ps) = key (attrs p) # keys_of ps"
  "keys_of (ps @ qs) = keys_of ps @ keys_of qs"
  "length (keys_of ps) = length ps"
  by (simp_all add: keys_of_def)

lemma keys_of_nth: "i < length ps \<Longrightarrow> keys_of ps ! i = key (attrs (ps ! i))"
  by (simp add: keys_of_def)


lemma mark_required_keys [simp]: "keys_of (mark_required k ps) = keys_of ps"
  by (induction k ps rule: mark_required.induct) auto

lemma mark_required_length [simp]: "length (mark_required k ps) = length ps"
  by (induction k ps rule: mark_required.induct) auto

lemma merge_arg_keys:
  "keys_of (merge_arg a ps) =
     (if Some (arg_name a) \<in> set (keys_of ps) then keys_of ps else keys_of ps @ [Some (arg_name a)])"
  by (simp add: merge_arg_def keys_of_def [symmetric] Parameter_init_def)








lemma initialize_command_parameters:
  "initialize_command env m = Inr cmd \<Longrightarrow>
     cmd_parameters cmd = fold merge_arg (signature m) (declared m)"
  by (auto simp: initialize_command_def Let_def split: sum.splits)






lemma mark_required_optional:
  assumes "i < length ps" and "\<forall>j<i. key (attrs (ps ! j)) \<noteq> key (attrs (ps ! i))"
  shows "optional (attrs (mark_required k ps ! i)) =
           (if key (attrs (ps ! i)) = Some k \<and> optional (attrs (ps ! i)) = None
            then Some False else optional (attrs (ps ! i)))"
  using assms
proof (induction k ps arbitrary: i rule: mark_required.induct)
  case (1 k)
  then show ?case by simp
next
  case (2 k a ps m rest)
  show ?case
  proof (cases i)
    case 0
    then show ?thesis by simp
  next
    case (Suc i')
    with "2.prems"(2) have h: "key a \<noteq> key (attrs (rest ! i'))" by fastforce
    show ?thesis
    proof (cases "key a = Some k")
      case True
      with h Suc show ?thesis by auto
    next
      case False
      from "2.prems" Suc have "i' < length rest"
        and "\<forall>j<i'. key (attrs (rest ! j)) \<noteq> key (attrs (rest ! i'))" by fastforce+
      from "2.IH" [OF False this] False Suc show ?thesis by simp
    qed
  qed
qed

lemma merge_arg_optional:
  assumes "i < length ps" and "\<forall>j<i. key (attrs (ps ! j)) \<noteq> key (attrs (ps ! i))"
  shows "optional (attrs (merge_arg a ps ! i)) =
           (if key (attrs (ps ! i)) = Some (arg_name a) \<and> optional (attrs (ps ! i)) = None
            then Some False else optional (attrs (ps ! i)))"
proof (cases "Some (arg_name a) \<in> set (map (\<lambda>p. key (attrs p)) ps)")
  case True
  with mark_required_optional [OF assms] show ?thesis by (simp add: merge_arg_def)
next
  case False
  with assms(1) have "key (attrs (ps ! i)) \<noteq> Some (arg_name a)" by (metis nth_mem image_eqI set_map)
  with False assms(1) show ?thesis by (simp add: merge_arg_def nth_append)
qed

lemma merge_arg_length: "length ps \<le> length (merge_arg a ps)"
  by (simp add: merge_arg_def)

lemma merge_arg_key_nth:
  "i < length ps \<Longrightarrow> key (attrs (merge_arg a ps ! i)) = key (attrs (ps ! i))"
proof -
  assume i: "i < length ps"
  with merge_arg_length [of ps a] have "i < length (merge_arg a ps)" by simp
  then have "key (attrs (merge_arg a ps ! i)) = keys_of (merge_arg a ps) ! i"
    by (simp add: keys_of_nth)
  also from i have "\<dots> = keys_of ps ! i" by (simp add: merge_arg_keys nth_append)
  finally show ?thesis using i by (simp add: keys_of_nth)
qed

lemma fold_merge_arg_optional:
  assumes "i < length ps" and "\<forall>j<i. key (attrs (ps ! j)) \<noteq> key (attrs (ps ! i))"
  shows "i < length (fold merge_arg sig ps)
       \<and> key (attrs (fold merge_arg sig ps ! i)) = key (attrs (ps ! i))
       \<and> optional (attrs (fold merge_arg sig ps ! i)) =
           (if optional (attrs (ps ! i)) = None \<and> key (attrs (ps ! i)) \<in> Some ` arg_name ` set sig
            then Some False else optional (attrs (ps ! i)))"
  using assms
proof (induction sig arbitrary: ps)
  case Nil
  then show ?case by simp
next
  case (Cons a sig)
  let ?ps1 = "merge_arg a ps"
  from Cons.prems(1) merge_arg_length [of ps a] have i1: "i < length ?ps1" by simp
  from Cons.prems have first1: "\<forall>j<i. key (attrs (?ps1 ! j)) \<noteq> key (attrs (?ps1 ! i))"
    by (simp add: merge_arg_key_nth)
  note ih = Cons.IH [OF i1 first1]
  note opt = merge_arg_optional [OF Cons.prems, of a]
  note k = merge_arg_key_nth [OF Cons.prems(1), of a]
  from ih opt k show ?case by (auto split: if_splits)
qed

text \<open>
  C4, as the code has it. A declared Parameter whose \<^verbatim>\<open>optional\<close> is unset and which
  is the first with its key keeps its key, and its flag becomes false exactly when its key
  is the name of a formal parameter of the method, whether that formal parameter has a
  default or not; otherwise the flag stays unset.
\<close>

theorem declared_optional_after_merging:
  assumes "initialize_command env m = Inr cmd"
      and "i < length (declared m)"
      and "optional (attrs (declared m ! i)) = None"
      and "key (attrs (declared m ! i)) \<notin> set (take i (keys_of (declared m)))"
  shows "key (attrs (cmd_parameters cmd ! i)) = key (attrs (declared m ! i))
       \<and> optional (attrs (cmd_parameters cmd ! i)) =
           (if key (attrs (declared m ! i)) \<in> Some ` arg_name ` set (signature m)
            then Some False else None)"
proof -
  have "\<forall>j<i. key (attrs (declared m ! j)) \<noteq> key (attrs (declared m ! i))"
  proof (intro allI impI)
    fix j assume j: "j < i"
    from j assms(2) have "j < length (take i (keys_of (declared m)))" by simp
    then have "take i (keys_of (declared m)) ! j \<in> set (take i (keys_of (declared m)))"
      by (rule nth_mem)
    with j have "keys_of (declared m) ! j \<in> set (take i (keys_of (declared m)))" by simp
    with assms(2,4) j show "key (attrs (declared m ! j)) \<noteq> key (attrs (declared m ! i))"
      by (auto simp: keys_of_nth)
  qed
  from fold_merge_arg_optional [OF assms(2) this, of "signature m"] assms(3)
    initialize_command_parameters [OF assms(1)]
  show ?thesis by simp
qed

theorem declared_optional_after_merging_witness:
  "initialize_command offline with_kwargs = Inr with_kwargs_command
   \<and> 1 < length (declared with_kwargs)
   \<and> optional (attrs (declared with_kwargs ! 1)) = None
   \<and> key (attrs (declared with_kwargs ! 1)) \<notin> set (take 1 (keys_of (declared with_kwargs)))
   \<and> key (attrs (cmd_parameters with_kwargs_command ! 1)) = Some ''extra''
   \<and> optional (attrs (cmd_parameters with_kwargs_command ! 1)) = None
   \<and> key (attrs (cmd_parameters with_kwargs_command ! 0)) = Some ''a''
   \<and> optional (attrs (cmd_parameters with_kwargs_command ! 0)) = Some False"
proof -
  have r: "initialize_command offline with_kwargs = Inr with_kwargs_command"
    by (simp add: eval_defs with_kwargs_def with_kwargs_command_def)
  have d: "declared with_kwargs = [keyed ''a'', keyed ''extra'']"
    by (simp add: declared_def raw_command_def annotated_def with_kwargs_def plain_method_def
        Command_init_def)
  have l: "1 < length (declared with_kwargs)" by (simp add: d)
  have o: "optional (attrs (declared with_kwargs ! 1)) = None"
    by (simp add: d keyed_def blank_def)
  have f: "key (attrs (declared with_kwargs ! 1)) \<notin> set (take 1 (keys_of (declared with_kwargs)))"
    by (simp add: d keyed_def blank_def)
  have k1: "key (attrs (cmd_parameters with_kwargs_command ! 1)) = Some ''extra''"
    by (simp add: with_kwargs_command_def keyed_def blank_def)
  have o1: "optional (attrs (cmd_parameters with_kwargs_command ! 1)) = None"
    by (simp add: with_kwargs_command_def keyed_def blank_def)
  have k0: "key (attrs (cmd_parameters with_kwargs_command ! 0)) = Some ''a''"
    by (simp add: with_kwargs_command_def blank_def)
  have o0: "optional (attrs (cmd_parameters with_kwargs_command ! 0)) = Some False"
    by (simp add: with_kwargs_command_def blank_def)
  from declared_optional_after_merging [OF r l o f] r l o f k1 o1 k0 o0 show ?thesis
    by blast
qed

text \<open>
  C4 as stated fails: for the method \<^verbatim>\<open>f(self, b=5)\<close> annotated with
  \<^verbatim>\<open>@parameter(key="b")\<close>, the declared Parameter with unset \<^verbatim>\<open>optional\<close> matches a
  formal parameter that has a default, and its flag is set to false all the same.
\<close>

theorem defaulted_formal_marks_non_optional:
  "map_sum id (\<lambda>cmd. map (\<lambda>p. optional (attrs p)) (cmd_parameters cmd))
     (initialize_command offline defaulted_b)
   = Inr [Some False]"
  by (simp add: eval_defs defaulted_b_def)

section \<open>Compilation works in place\<close>






section \<open>Normalizing a second time\<close>

lemma lower_char_lower [simp]: "lower_char (lower_char c) = lower_char c"
  by (simp add: lower_char_def upper_letters_def lower_letters_def)

lemma upper_char_upper [simp]: "upper_char (upper_char c) = upper_char c"
  by (simp add: upper_char_def upper_letters_def lower_letters_def)

lemma lower_char_upper [simp]: "lower_char (upper_char c) = lower_char c"
  by (simp add: lower_char_def upper_char_def upper_letters_def lower_letters_def)

lemma is_cased_lower [simp]: "is_cased (lower_char c) = is_cased c"
  by (simp add: is_cased_def lower_char_def upper_letters_def lower_letters_def)

lemma is_cased_upper [simp]: "is_cased (upper_char c) = is_cased c"
  by (simp add: is_cased_def upper_char_def upper_letters_def lower_letters_def)






lemma str_of_type_class_nonempty: "str_of_type (TClass c) \<noteq> []"
  by simp



lemma validate_kwargness_updates [simp]:
  "validate_kwargness f (a\<lparr>ptype := t\<rparr>) = validate_kwargness f a"
  "validate_kwargness f (a\<lparr>choices := ch\<rparr>) = validate_kwargness f a"
  "validate_kwargness f (a\<lparr>default_value := d\<rparr>) = validate_kwargness f a"
  "validate_kwargness f (a\<lparr>type_info := ti\<rparr>) = validate_kwargness f a"
  by (simp_all add: validate_kwargness_def cong: option.case_cong)















end
